theory Spec2Isabelle
  imports Main
begin

section \<open>Values, errors and external results\<close>

text \<open>
  The plugin (\<^verbatim>\<open>src/index.js\<close>, class \<^verbatim>\<open>ServerlessPlugin\<close>) is a set of
  hook handlers that query the provider, log through \<^verbatim>\<open>serverless.cli.log\<close> and shell
  out through \<^verbatim>\<open>spawnSync\<close>. The embedding threads an explicit \<open>world\<close> through each
  handler and returns errors as values.

  A JavaScript error is either a \<^verbatim>\<open>TypeError\<close> raised by reading a property of
  \<^verbatim>\<open>undefined\<close>/\<^verbatim>\<open>null\<close> (tagged with the property that was read), an
  \<^verbatim>\<open>Error\<close> the plugin constructs itself (with its message), or the reason a
  provider request was rejected with.
\<close>

datatype js_error = TypeError string | Error string | RequestError string

text \<open>
  What a handler hands back to the hook runner: \<^verbatim>\<open>undefined\<close> (a handler without a
  \<^verbatim>\<open>return\<close>), or a promise, given by what it settles to (\<open>Inl\<close> a rejection,
  \<open>Inr\<close> the value it is fulfilled with).
\<close>

datatype 'a returned = Undefined | Promise "js_error + 'a"

text \<open>\<^verbatim>\<open>serverless.cli.log\<close> is called with strings and, once, with the array \<^verbatim>\<open>args\<close>.\<close>

datatype log_entry = LogString string | LogArray "string list"

record stack_output =
  OutputKey :: string
  OutputValue :: string

record stack =
  Outputs :: "stack_output list"

record describe_result =
  Stacks :: "stack list"

record distribution =
  Id' :: string
  DomainName :: string

record distribution_list =
  Items :: "distribution list"

record list_result =
  DistributionList :: distribution_list

text \<open>
  The object \<^verbatim>\<open>spawnSync\<close> returns: after the shell ran, an exit status
  (\<^verbatim>\<open>null\<close> when a signal ended it) and the two captured buffers; when the child could
  not be started, \<^verbatim>\<open>stdout\<close> and \<^verbatim>\<open>stderr\<close> are \<^verbatim>\<open>null\<close>.
\<close>

datatype spawn_result =
    Completed (status: "int option") (stdout_buf: string) (stderr_buf: string)
  | SpawnError

text \<open>The object \<^verbatim>\<open>{ stdout, sterr }\<close> that \<^verbatim>\<open>runAwsCommand\<close> returns.\<close>

record aws_output =
  stdout :: string
  sterr :: string

section \<open>The plugin's surroundings\<close>

text \<open>
  \<open>env\<close> holds what the constructor receives and what the handlers call but do not
  define: \<^verbatim>\<open>this.options\<close> (\<open>stage\<close>, \<open>region\<close>),
  \<^verbatim>\<open>serverless.service.custom.s3LocalPath\<close>,
  \<^verbatim>\<open>serverless.variables.service.provider\<close> (\<open>provider_region\<close>, \<open>provider_profile\<close>),
  \<^verbatim>\<open>provider.naming.getStackName\<close>, the two provider requests the plugin issues
  (\<^verbatim>\<open>provider.request('CloudFormation', 'describeStacks', {StackName}, stage, region)\<close> and
  \<^verbatim>\<open>provider.request('CloudFront', 'listDistributions', {}, stage, region)\<close>) and
  \<^verbatim>\<open>spawnSync(command, args, {shell: true})\<close>.
  The external calls take a first argument that tells one call from the next, since the
  provider and the shell may answer differently each time: for the two requests, how
  many provider requests were issued before; for \<^verbatim>\<open>spawnSync\<close>, how many commands
  were spawned before.
\<close>

record env =
  stage :: "string option"
  region :: "string option"
  s3LocalPath :: string
  provider_region :: "string option"
  provider_profile :: "string option"
  getStackName :: "string option \<Rightarrow> string"
  describeStacks ::
    "nat \<Rightarrow> string \<Rightarrow> string option \<Rightarrow> string option \<Rightarrow> js_error + describe_result"
  listDistributions ::
    "nat \<Rightarrow> string option \<Rightarrow> string option \<Rightarrow> js_error + list_result"
  spawnSync :: "nat \<Rightarrow> string \<Rightarrow> string list \<Rightarrow> spawn_result"

text \<open>
  \<open>world\<close> is everything a handler changes: the lines given to
  \<^verbatim>\<open>serverless.cli.log\<close>, the number of provider requests issued, the
  \<^verbatim>\<open>spawnSync\<close> calls made (command and arguments), and the rejections of promises
  that nobody holds (a promise built by \<^verbatim>\<open>.then\<close> and neither returned nor given a
  rejection handler). The world after a handler is the world once its promise chain
  has settled.
\<close>

record world =
  logged :: "log_entry list"
  requests :: nat
  spawned :: "(string \<times> string list) list"
  unhandled :: "js_error list"

definition cli_log :: "log_entry \<Rightarrow> world \<Rightarrow> world" where
  "cli_log entry w = w\<lparr>logged := logged w @ [entry]\<rparr>"

text \<open>JavaScript truthiness of a string: every string but the empty one.\<close>

definition truthy :: "string \<Rightarrow> bool" where
  "truthy s = (s \<noteq> [])"

text \<open>\<^verbatim>\<open>x || 'Not Found'\<close> on a string \<open>x\<close>.\<close>

definition or_else :: "string \<Rightarrow> string \<Rightarrow> string" where
  "or_else x d = (if truthy x then x else d)"

text \<open>
  A promise that is dropped: the handler returns \<^verbatim>\<open>undefined\<close>, and a rejection of the
  promise is left unhandled.
\<close>

definition dropped :: "(js_error + 'a) \<times> world \<Rightarrow> 'b returned \<times> world" where
  "dropped pw =
     (case pw of
        (Inl err, w) \<Rightarrow> (Undefined, w\<lparr>unhandled := unhandled w @ [err]\<rparr>)
      | (Inr _, w) \<Rightarrow> (Undefined, w))"

text \<open>
  \<^verbatim>\<open>await v\<close>: a promise gives what it settles to, any other value gives itself
  (here \<^verbatim>\<open>undefined\<close>, \<open>None\<close>).
\<close>

definition await :: "'a returned \<Rightarrow> js_error + 'a option" where
  "await v =
     (case v of
        Undefined \<Rightarrow> Inr None
      | Promise (Inl err) \<Rightarrow> Inl err
      | Promise (Inr x) \<Rightarrow> Inr (Some x))"

text \<open>A template literal's rendering of a value that may be \<^verbatim>\<open>undefined\<close>.\<close>

definition interpolate :: "string option \<Rightarrow> string" where
  "interpolate v = (case v of None \<Rightarrow> ''undefined'' | Some s \<Rightarrow> s)"

section \<open>The handlers\<close>

text \<open>
  The callback \<^verbatim>\<open>getDescribeStacksOutput\<close> gives to \<^verbatim>\<open>.then\<close>:
  \<^verbatim>\<open>result.Stacks[0].Outputs\<close>, \<^verbatim>\<open>find\<close> by \<^verbatim>\<open>OutputKey === outputKey\<close> and
  \<^verbatim>\<open>output.OutputValue\<close>. \<^verbatim>\<open>Stacks[0]\<close> of an empty array and \<^verbatim>\<open>find\<close> without
  a match are \<^verbatim>\<open>undefined\<close>, and reading a property of it throws.
\<close>

definition getDescribeStacksOutput_then :: "string \<Rightarrow> describe_result \<Rightarrow> js_error + string" where
  "getDescribeStacksOutput_then outputKey result =
     (case Stacks result of
        [] \<Rightarrow> Inl (TypeError ''Outputs'')
      | s # _ \<Rightarrow>
          (let outputs = Outputs s
           in case find (\<lambda>entry. OutputKey entry = outputKey) outputs of
                None \<Rightarrow> Inl (TypeError ''OutputValue'')
              | Some output \<Rightarrow> Inr (OutputValue output)))"

text \<open>
  \<^verbatim>\<open>getDescribeStacksOutput(outputKey)\<close>: one \<^verbatim>\<open>describeStacks\<close> request for the
  stage's stack, then the callback; a rejected request and a throwing callback both
  reject the promise it returns.
\<close>

definition getDescribeStacksOutput ::
  "env \<Rightarrow> string \<Rightarrow> world \<Rightarrow> (js_error + string) \<times> world" where
  "getDescribeStacksOutput e outputKey w =
     (let stackName = getStackName e (stage e);
          w1 = w\<lparr>requests := Suc (requests w)\<rparr>
      in case describeStacks e (requests w) stackName (stage e) (region e) of
           Inl err \<Rightarrow> (Inl err, w1)
         | Inr result \<Rightarrow> (getDescribeStacksOutput_then outputKey result, w1))"

text \<open>The command string \<^verbatim>\<open>runAwsCommand\<close> builds before it spawns.\<close>

definition aws_command :: "env \<Rightarrow> string" where
  "aws_command e =
     (let command = ''aws'';
          command =
            (case provider_region e of
               None \<Rightarrow> command
             | Some r \<Rightarrow> if truthy r then command @ '' --region '' @ r else command);
          command =
            (case provider_profile e of
               None \<Rightarrow> command
             | Some p \<Rightarrow> if truthy p then command @ '' --profile '' @ p else command)
      in command)"

text \<open>
  \<^verbatim>\<open>runAwsCommand(args)\<close>: spawn, turn both buffers into strings (a \<^verbatim>\<open>TypeError\<close>
  when they are \<^verbatim>\<open>null\<close>), log each one that is not empty, return both. The exit
  status is not read.
\<close>

definition runAwsCommand ::
  "env \<Rightarrow> string list \<Rightarrow> world \<Rightarrow> (js_error + aws_output) \<times> world" where
  "runAwsCommand e args w =
     (let command = aws_command e;
          w1 = w\<lparr>spawned := spawned w @ [(command, args)]\<rparr>
      in case spawnSync e (length (spawned w)) command args of
           SpawnError \<Rightarrow> (Inl (TypeError ''toString''), w1)
         | Completed st out err \<Rightarrow>
             (let w2 = (if truthy out then cli_log (LogString out) w1 else w1);
                  w3 = (if truthy err then cli_log (LogString err) w2 else w2)
              in (Inr \<lparr>stdout = out, sterr = err\<rparr>, w3)))"

text \<open>The callback \<^verbatim>\<open>syncDirectory\<close> gives to \<^verbatim>\<open>.then\<close>.\<close>

definition syncDirectory_then :: "env \<Rightarrow> string \<Rightarrow> world \<Rightarrow> (js_error + unit) \<times> world" where
  "syncDirectory_then e s3Bucket w =
     (let args = [''s3'', ''sync'', s3LocalPath e, ''s3://'' @ s3Bucket @ ''/''];
          w1 = cli_log (LogArray args) w
      in case runAwsCommand e args w1 of
           (Inl err, w2) \<Rightarrow> (Inl err, w2)
         | (Inr res, w2) \<Rightarrow>
             if \<not> truthy (sterr res)
             then (Inr (), cli_log (LogString ''Successfully synced to the S3 bucket'') w2)
             else (Inr (), w2))"

definition syncDirectory_chain :: "env \<Rightarrow> world \<Rightarrow> (js_error + unit) \<times> world" where
  "syncDirectory_chain e w =
     (case getDescribeStacksOutput e ''WebAppS3BucketOutput'' w of
        (Inl err, w1) \<Rightarrow> (Inl err, w1)
      | (Inr s3Bucket, w1) \<Rightarrow> syncDirectory_then e s3Bucket w1)"

text \<open>\<^verbatim>\<open>syncDirectory()\<close> builds the chain and returns nothing.\<close>

definition syncDirectory :: "env \<Rightarrow> world \<Rightarrow> unit returned \<times> world" where
  "syncDirectory e w = dropped (syncDirectory_chain e w)"

definition emptyBucket_then :: "env \<Rightarrow> string \<Rightarrow> world \<Rightarrow> (js_error + unit) \<times> world" where
  "emptyBucket_then e s3Bucket w =
     (let args = [''s3'', ''rm'', ''s3://'' @ s3Bucket @ ''/'', ''--recursive'']
      in case runAwsCommand e args w of
           (Inl err, w1) \<Rightarrow> (Inl err, w1)
         | (Inr res, w1) \<Rightarrow>
             if \<not> truthy (sterr res)
             then (Inr (), cli_log (LogString ''Successfully synced to the S3 bucket'') w1)
             else (Inr (), w1))"

definition emptyBucket_chain :: "env \<Rightarrow> world \<Rightarrow> (js_error + unit) \<times> world" where
  "emptyBucket_chain e w =
     (case getDescribeStacksOutput e ''WebAppS3BucketOutput'' w of
        (Inl err, w1) \<Rightarrow> (Inl err, w1)
      | (Inr s3Bucket, w1) \<Rightarrow> emptyBucket_then e s3Bucket w1)"

definition emptyBucket :: "env \<Rightarrow> world \<Rightarrow> unit returned \<times> world" where
  "emptyBucket e w = dropped (emptyBucket_chain e w)"

definition bucketInfo_chain :: "env \<Rightarrow> world \<Rightarrow> (js_error + unit) \<times> world" where
  "bucketInfo_chain e w =
     (case getDescribeStacksOutput e ''WebAppS3BucketOutput'' w of
        (Inl err, w1) \<Rightarrow> (Inl err, w1)
      | (Inr outputValue, w1) \<Rightarrow>
          (Inr (),
           cli_log (LogString (''Web App Bucket: '' @ or_else outputValue ''Not Found'')) w1))"

definition bucketInfo :: "env \<Rightarrow> world \<Rightarrow> unit returned \<times> world" where
  "bucketInfo e w = dropped (bucketInfo_chain e w)"

definition domainInfo_chain :: "env \<Rightarrow> world \<Rightarrow> (js_error + string) \<times> world" where
  "domainInfo_chain e w =
     (case getDescribeStacksOutput e ''WebAppCloudFrontDistributionOutput'' w of
        (Inl err, w1) \<Rightarrow> (Inl err, w1)
      | (Inr outputValue, w1) \<Rightarrow>
          (Inr outputValue,
           cli_log (LogString (''Web App Domain: '' @ or_else outputValue ''Not Found'')) w1))"

text \<open>\<^verbatim>\<open>domainInfo()\<close> returns its chain.\<close>

definition domainInfo :: "env \<Rightarrow> world \<Rightarrow> string returned \<times> world" where
  "domainInfo e w = (case domainInfo_chain e w of (p, w1) \<Rightarrow> (Promise p, w1))"

text \<open>
  \<^verbatim>\<open>async invalidateCache()\<close>: the value is the promise the async function returns;
  a \<^verbatim>\<open>throw\<close> and a rejected \<^verbatim>\<open>await\<close> reject it.
\<close>

definition invalidateCache :: "env \<Rightarrow> world \<Rightarrow> unit returned \<times> world" where
  "invalidateCache e w =
     (case domainInfo e w of
        (v, w1) \<Rightarrow>
          (case await v of
             Inl err \<Rightarrow> (Promise (Inl err), w1)
           | Inr domain \<Rightarrow>
               (let w2 = w1\<lparr>requests := Suc (requests w1)\<rparr>
                in case listDistributions e (requests w1) (stage e) (region e) of
                     Inl err \<Rightarrow> (Promise (Inl err), w2)
                   | Inr result \<Rightarrow>
                       (let distributions = Items (DistributionList result)
                        in case find (\<lambda>entry. Some (DomainName entry) = domain) distributions of
                             Some distribution \<Rightarrow>
                               (let w3 = cli_log (LogString
                                      (''Invalidating CloudFront distribution with id: ''
                                         @ Id' distribution)) w2;
                                    args = [''cloudfront'', ''create-invalidation'',
                                            ''--distribution-id'', Id' distribution,
                                            ''--paths'', [CHR 0x22, CHR ''/'', CHR ''*'', CHR 0x22]]
                                in case runAwsCommand e args w3 of
                                     (Inl err, w4) \<Rightarrow> (Promise (Inl err), w4)
                                   | (Inr res, w4) \<Rightarrow>
                                       if \<not> truthy (sterr res)
                                       then (Promise (Inr ()),
                                             cli_log (LogString
                                               ''Successfully invalidated CloudFront cache'') w4)
                                       else (Promise (Inl (Error
                                               ''Failed invalidating CloudFront cache'')), w4))
                           | None \<Rightarrow>
                               (let message = ''Could not find distribution with domain ''
                                      @ interpolate domain
                                in (Promise (Inl (Error message)),
                                    cli_log (LogString message) w2))))))"

section \<open>The command line the shell receives\<close>

text \<open>
  \<^verbatim>\<open>runAwsCommand\<close> gives \<^verbatim>\<open>spawnSync\<close> a command string, the token array and
  \<^verbatim>\<open>{ shell: true }\<close>. With that option Node's \<^verbatim>\<open>child_process\<close> runs the shell on
  \<^verbatim>\<open>[file, ...args].join(' ')\<close>; \<open>join_sp\<close> is \<^verbatim>\<open>Array.prototype.join(' ')\<close> and
  \<open>shell_command_line\<close> that line.
\<close>

fun join_sp :: "string list \<Rightarrow> string" where
  "join_sp [] = []"
| "join_sp [x] = x"
| "join_sp (x # y # ys) = x @ '' '' @ join_sp (y # ys)"

definition shell_command_line :: "string \<Rightarrow> string list \<Rightarrow> string" where
  "shell_command_line file args = join_sp (file # args)"

text \<open>
  The specification's wording of the runner, to compare the code with: prepend, in
  order, a \<^verbatim>\<open>--region r\<close> pair if the context's region is set, then a
  \<^verbatim>\<open>--profile p\<close> pair if its profile is set, then the caller's tokens. A value is
  set when it is neither \<^verbatim>\<open>undefined\<close> nor the empty string.
\<close>

fun spec_pair :: "string \<Rightarrow> string option \<Rightarrow> string list" where
  "spec_pair flag None = []"
| "spec_pair flag (Some v) = (if v = [] then [] else [flag, v])"

definition spec_invocation ::
  "string option \<Rightarrow> string option \<Rightarrow> string list \<Rightarrow> string list" where
  "spec_invocation r p tokens = spec_pair ''--region'' r @ spec_pair ''--profile'' p @ tokens"

section \<open>Observations and sample surroundings\<close>

text \<open>The lines logged between an earlier world and a later one.\<close>

definition lines_since :: "world \<Rightarrow> world \<Rightarrow> log_entry list" where
  "lines_since w w' = drop (length (logged w)) (logged w')"

text \<open>
  Surroundings in which every \<^verbatim>\<open>describeStacks\<close> request is answered with \<open>d\<close>, every
  \<^verbatim>\<open>listDistributions\<close> request with \<open>l\<close> and every spawned command ends as \<open>s\<close>; and
  a world in which nothing has happened yet.
\<close>

definition sample_env ::
  "(js_error + describe_result) \<Rightarrow> (js_error + list_result) \<Rightarrow> spawn_result \<Rightarrow> env" where
  "sample_env d l s =
     \<lparr>stage = Some ''dev'', region = Some ''us-east-1'', s3LocalPath = ''dist'',
      provider_region = Some ''us-east-1'', provider_profile = Some ''p'',
      getStackName = (\<lambda>s. ''app-'' @ interpolate s),
      describeStacks = (\<lambda>_ _ _ _. d), listDistributions = (\<lambda>_ _ _. l),
      spawnSync = (\<lambda>_ _ _. s)\<rparr>"

definition world0 :: world where
  "world0 = \<lparr>logged = [], requests = 0, spawned = [], unhandled = []\<rparr>"

text \<open>A stack description with the given outputs, and a distribution listing.\<close>

definition described :: "(string \<times> string) list \<Rightarrow> js_error + describe_result" where
  "described kvs =
     Inr \<lparr>Stacks = [\<lparr>Outputs = map (\<lambda>(k, v). \<lparr>OutputKey = k, OutputValue = v\<rparr>) kvs\<rparr>]\<rparr>"

definition listed :: "(string \<times> string) list \<Rightarrow> js_error + list_result" where
  "listed ids =
     Inr \<lparr>DistributionList =
            \<lparr>Items = map (\<lambda>(i, d). \<lparr>Id' = i, DomainName = d\<rparr>) ids\<rparr>\<rparr>"

text \<open>
  The sample deployment of the specification's examples: a stack with both outputs, and
  a listing in which \<^verbatim>\<open>E123\<close> serves the stack's domain.
\<close>

definition sample_stack :: "js_error + describe_result" where
  "sample_stack =
     described [(''WebAppS3BucketOutput'', ''bkt''),
                (''WebAppCloudFrontDistributionOutput'', ''d1.example.com'')]"

definition sample_listing :: "js_error + list_result" where
  "sample_listing = listed [(''E123'', ''d1.example.com''), (''E999'', ''other.com'')]"

text \<open>The token array \<^verbatim>\<open>invalidateCache\<close> builds for a distribution id.\<close>

abbreviation invalidation_args :: "string \<Rightarrow> string list" where
  "invalidation_args i \<equiv>
     [''cloudfront'', ''create-invalidation'', ''--distribution-id'', i,
      ''--paths'', [CHR 0x22, CHR ''/'', CHR ''*'', CHR 0x22]]"

section \<open>Properties\<close>

subsection \<open>Auxiliary facts\<close>

lemma join_sp_Cons: "join_sp (x # xs) = (if xs = [] then x else x @ '' '' @ join_sp xs)"
  by (cases xs) simp_all

lemma aws_command_spec:
  "aws_command e =
     join_sp (''aws'' # spec_pair ''--region'' (provider_region e)
                      @ spec_pair ''--profile'' (provider_profile e))"
  by (cases "provider_region e"; cases "provider_profile e")
     (simp_all add: aws_command_def truthy_def)

lemma shell_line_spec:
  "shell_command_line (aws_command e) tokens =
     join_sp (''aws'' # spec_invocation (provider_region e) (provider_profile e) tokens)"
  by (cases "provider_region e"; cases "provider_profile e")
     (simp_all add: shell_command_line_def aws_command_def spec_invocation_def join_sp_Cons
                    truthy_def)

lemma cli_log_simps [simp]:
  "logged (cli_log x w) = logged w @ [x]"
  "requests (cli_log x w) = requests w"
  "spawned (cli_log x w) = spawned w"
  "unhandled (cli_log x w) = unhandled w"
  by (simp_all add: cli_log_def)

lemma find_first:
  assumes "\<forall>x\<in>set pre. \<not> P x" and "P y"
  shows "find P (pre @ y # post) = Some y"
  using assms by (induction pre) simp_all

text \<open>
  The three ways \<^verbatim>\<open>getDescribeStacksOutput\<close> settles: the request is rejected; the
  stack lacks the key; the stack has the key, and the value of the first entry that
  carries it is returned unchanged.
\<close>

lemma resolve_rejected:
  assumes "describeStacks e (requests w) (getStackName e (stage e)) (stage e) (region e) = Inl err"
  shows "getDescribeStacksOutput e k w = (Inl err, w\<lparr>requests := Suc (requests w)\<rparr>)"
  using assms by (simp add: getDescribeStacksOutput_def getDescribeStacksOutput_then_def)

lemma resolve_absent:
  assumes "describeStacks e (requests w) (getStackName e (stage e)) (stage e) (region e)
             = Inr result"
      and "Stacks result = s # ss"
      and "k \<notin> OutputKey ` set (Outputs s)"
  shows "getDescribeStacksOutput e k w
           = (Inl (TypeError ''OutputValue''), w\<lparr>requests := Suc (requests w)\<rparr>)"
proof -
  from assms(3) have "find (\<lambda>entry. OutputKey entry = k) (Outputs s) = None"
    by (auto simp: find_None_iff)
  with assms(1,2) show ?thesis
    by (simp add: getDescribeStacksOutput_def getDescribeStacksOutput_then_def)
qed

lemma resolve_present:
  assumes "describeStacks e (requests w) (getStackName e (stage e)) (stage e) (region e)
             = Inr result"
      and "Stacks result = s # ss"
      and "Outputs s = pre @ entry # post"
      and "k \<notin> OutputKey ` set pre"
      and "OutputKey entry = k"
  shows "getDescribeStacksOutput e k w
           = (Inr (OutputValue entry), w\<lparr>requests := Suc (requests w)\<rparr>)"
proof -
  from assms(4) have "\<forall>x\<in>set pre. \<not> OutputKey x = k"
    by auto
  with assms(3,5) have "find (\<lambda>x. OutputKey x = k) (Outputs s) = Some entry"
    by (simp add: find_first)
  with assms(1,2) show ?thesis
    by (simp add: getDescribeStacksOutput_def getDescribeStacksOutput_then_def)
qed

lemma resolve_world:
  "snd (getDescribeStacksOutput e k w) = w\<lparr>requests := Suc (requests w)\<rparr>"
  by (simp add: getDescribeStacksOutput_def getDescribeStacksOutput_then_def Let_def split: sum.splits list.splits option.splits)

text \<open>What \<^verbatim>\<open>runAwsCommand\<close> does when the shell ran; the exit status plays no part.\<close>

lemma run_completed:
  assumes "spawnSync e (length (spawned w)) (aws_command e) args = Completed st out err"
  shows "runAwsCommand e args w =
           (Inr \<lparr>stdout = out, sterr = err\<rparr>,
            w\<lparr>spawned := spawned w @ [(aws_command e, args)],
              logged := logged w @ (if out = [] then [] else [LogString out])
                                 @ (if err = [] then [] else [LogString err])\<rparr>)"
  using assms by (simp add: runAwsCommand_def truthy_def cli_log_def)

lemma run_spawned:
  "spawned (snd (runAwsCommand e args w)) = spawned w @ [(aws_command e, args)]"
  by (simp add: runAwsCommand_def Let_def split: spawn_result.splits)

lemma dropped_fst: "fst (dropped pw) = Undefined"
  by (simp add: dropped_def split: prod.splits sum.splits)

lemma domainInfo_chain_spawned: "spawned (snd (domainInfo_chain e w)) = spawned w"
  by (simp add: domainInfo_chain_def getDescribeStacksOutput_def getDescribeStacksOutput_then_def Let_def
           split: sum.splits list.splits option.splits)

lemma domainInfo_spawned: "spawned (snd (domainInfo e w)) = spawned w"
  using domainInfo_chain_spawned [of e w]
  by (cases "domainInfo_chain e w") (simp add: domainInfo_def)

lemma invalidate_matched:
  assumes D: "domainInfo e w = (Promise (Inr domain), w1)"
      and L: "listDistributions e (requests w1) (stage e) (region e) = Inr result"
      and F: "find (\<lambda>entry. DomainName entry = domain) (Items (DistributionList result)) = Some d"
  shows "invalidateCache e w =
           (case runAwsCommand e (invalidation_args (Id' d))
                   (cli_log (LogString (''Invalidating CloudFront distribution with id: '' @ Id' d))
                      (w1\<lparr>requests := Suc (requests w1)\<rparr>)) of
              (Inl err, w4) \<Rightarrow> (Promise (Inl err), w4)
            | (Inr res, w4) \<Rightarrow>
                if \<not> truthy (sterr res)
                then (Promise (Inr ()),
                      cli_log (LogString ''Successfully invalidated CloudFront cache'') w4)
                else (Promise (Inl (Error ''Failed invalidating CloudFront cache'')), w4))"
  using D L F by (simp add: invalidateCache_def await_def)

lemma invalidate_unmatched:
  assumes D: "domainInfo e w = (Promise (Inr domain), w1)"
      and L: "listDistributions e (requests w1) (stage e) (region e) = Inr result"
      and F: "find (\<lambda>entry. DomainName entry = domain) (Items (DistributionList result)) = None"
  shows "invalidateCache e w =
           (Promise (Inl (Error (''Could not find distribution with domain '' @ domain))),
            cli_log (LogString (''Could not find distribution with domain '' @ domain))
              (w1\<lparr>requests := Suc (requests w1)\<rparr>))"
  using D L F by (simp add: invalidateCache_def await_def interpolate_def Let_def)

subsection \<open>The claims\<close>

text \<open>
  C1 (the code departs from the claim). The claim: for an output key absent from the
  fetched stack description the resolver returns a not-found value and does not throw.
  The code: \<^verbatim>\<open>outputs.find\<close> gives \<^verbatim>\<open>undefined\<close> and \<^verbatim>\<open>output.OutputValue\<close> throws,
  so the promise of \<^verbatim>\<open>getDescribeStacksOutput\<close> is rejected with a \<^verbatim>\<open>TypeError\<close>
  whenever the first stack has no output with that key. (For a key that is present,
  \<open>resolve_present\<close> gives the exact value.)
\<close>

theorem getDescribeStacksOutput_absent_key:
  assumes "describeStacks e (requests w) (getStackName e (stage e)) (stage e) (region e)
             = Inr result"
      and "Stacks result = s # ss"
      and "outputKey \<notin> OutputKey ` set (Outputs s)"
  shows "fst (getDescribeStacksOutput e outputKey w) = Inl (TypeError ''OutputValue'')"
  using resolve_absent [OF assms] by simp

text \<open>C1 at a stack without outputs and the key \<^verbatim>\<open>WebAppS3BucketOutput\<close>.\<close>

theorem getDescribeStacksOutput_absent_key_witness:
  "describeStacks (sample_env (described []) (listed []) SpawnError) (requests world0)
       (getStackName (sample_env (described []) (listed []) SpawnError)
          (stage (sample_env (described []) (listed []) SpawnError)))
       (stage (sample_env (described []) (listed []) SpawnError))
       (region (sample_env (described []) (listed []) SpawnError))
     = Inr \<lparr>Stacks = [\<lparr>Outputs = []\<rparr>]\<rparr>
   \<and> ''WebAppS3BucketOutput'' \<notin> OutputKey ` set (Outputs \<lparr>Outputs = []\<rparr>)
   \<and> fst (getDescribeStacksOutput (sample_env (described []) (listed []) SpawnError)
             ''WebAppS3BucketOutput'' world0)
       = Inl (TypeError ''OutputValue'')"
  using getDescribeStacksOutput_absent_key
          [of "sample_env (described []) (listed []) SpawnError" world0
              "\<lparr>Stacks = [\<lparr>Outputs = []\<rparr>]\<rparr>" "\<lparr>Outputs = []\<rparr>" "[]"
              "''WebAppS3BucketOutput''"]
  by (simp add: sample_env_def described_def)

text \<open>
  C6 (the code departs from the claim). The claim: when the required output key is
  absent, BucketInfo and DomainInfo log the placeholder \<^verbatim>\<open>Not Found\<close>. The code: the
  rejection of the resolver skips the logging callback, so neither logs anything;
  \<^verbatim>\<open>bucketInfo\<close> leaves the \<^verbatim>\<open>TypeError\<close> unhandled and \<^verbatim>\<open>domainInfo\<close> returns a promise
  rejected with it. The world after differs from the world before only in the request
  count and the unhandled rejection.
\<close>

theorem info_absent_key_logs_nothing:
  assumes "describeStacks e (requests w) (getStackName e (stage e)) (stage e) (region e)
             = Inr result"
      and "Stacks result = s # ss"
      and "''WebAppS3BucketOutput'' \<notin> OutputKey ` set (Outputs s)"
      and "''WebAppCloudFrontDistributionOutput'' \<notin> OutputKey ` set (Outputs s)"
  shows "bucketInfo e w =
           (Undefined, w\<lparr>requests := Suc (requests w),
                         unhandled := unhandled w @ [TypeError ''OutputValue'']\<rparr>)
       \<and> domainInfo e w =
           (Promise (Inl (TypeError ''OutputValue'')), w\<lparr>requests := Suc (requests w)\<rparr>)"
  using resolve_absent [OF assms(1,2,3)] resolve_absent [OF assms(1,2,4)]
  by (simp add: bucketInfo_def bucketInfo_chain_def domainInfo_def domainInfo_chain_def
                dropped_def)

text \<open>C6 at a stack without outputs: no line is logged.\<close>

theorem info_absent_key_logs_nothing_witness:
  "bucketInfo (sample_env (described []) (listed []) SpawnError) world0 =
     (Undefined, \<lparr>logged = [], requests = 1, spawned = [],
                  unhandled = [TypeError ''OutputValue'']\<rparr>)
   \<and> domainInfo (sample_env (described []) (listed []) SpawnError) world0 =
     (Promise (Inl (TypeError ''OutputValue'')),
      \<lparr>logged = [], requests = 1, spawned = [], unhandled = []\<rparr>)"
  using info_absent_key_logs_nothing
          [of "sample_env (described []) (listed []) SpawnError" world0
              "\<lparr>Stacks = [\<lparr>Outputs = []\<rparr>]\<rparr>" "\<lparr>Outputs = []\<rparr>" "[]"]
  by (simp add: sample_env_def described_def world0_def)

text \<open>
  C2 as stated fails. The claim equates the invocation with the token sequence
  \<^verbatim>\<open>--region r --profile p\<close> followed by the caller's tokens, for every token list.
  At the specification's example the argument array \<^verbatim>\<open>runAwsCommand\<close> gives to
  \<^verbatim>\<open>spawnSync\<close> holds the caller's tokens only: the pairs are inside the program
  string. And what is run is one command line for the shell, which does not keep the
  tokens apart: the one token \<^verbatim>\<open>my dir\<close> and the two tokens \<^verbatim>\<open>my\<close>, \<^verbatim>\<open>dir\<close> give the
  same line, although the claimed sequences differ, so the invocation equals the
  claimed sequence for at most one of them.
\<close>

theorem runAwsCommand_sequence_counterexample:
  "spawned (snd (runAwsCommand (sample_env (described []) (listed []) SpawnError)
                    [''s3'', ''sync'', ''a'', ''b''] world0))
     = [(''aws --region us-east-1 --profile p'', [''s3'', ''sync'', ''a'', ''b''])]
   \<and> [''s3'', ''sync'', ''a'', ''b'']
     \<noteq> [''--region'', ''us-east-1'', ''--profile'', ''p'', ''s3'', ''sync'', ''a'', ''b'']
   \<and> shell_command_line (aws_command (sample_env (described []) (listed []) SpawnError))
         [''my dir'']
     = shell_command_line (aws_command (sample_env (described []) (listed []) SpawnError))
         [''my'', ''dir'']
   \<and> spec_invocation (provider_region (sample_env (described []) (listed []) SpawnError))
         (provider_profile (sample_env (described []) (listed []) SpawnError)) [''my dir'']
     = [''--region'', ''us-east-1'', ''--profile'', ''p'', ''my dir'']
   \<and> spec_invocation (provider_region (sample_env (described []) (listed []) SpawnError))
         (provider_profile (sample_env (described []) (listed []) SpawnError)) [''my'', ''dir'']
     = [''--region'', ''us-east-1'', ''--profile'', ''p'', ''my'', ''dir'']
   \<and> [''--region'', ''us-east-1'', ''--profile'', ''p'', ''my dir'']
     \<noteq> [''--region'', ''us-east-1'', ''--profile'', ''p'', ''my'', ''dir'']"
  by (simp add: runAwsCommand_def aws_command_def truthy_def sample_env_def world0_def
                shell_command_line_def spec_invocation_def)

text \<open>
  C2, amended. For every token list and every context, \<^verbatim>\<open>runAwsCommand\<close> spawns
  exactly once, with the caller's tokens unchanged as the argument array and with the
  program string \<^verbatim>\<open>aws\<close>, then \<^verbatim>\<open>--region r\<close> if the region is set, then
  \<^verbatim>\<open>--profile p\<close> if the profile is set, joined by single spaces; and the command
  line the shell receives is the space-joined form of \<^verbatim>\<open>aws\<close>, the pairs that are set
  (region before profile) and the tokens in their order. With both set that is
  \<^verbatim>\<open>aws --region r --profile p\<close> and the tokens; an unset value contributes nothing.
  Splitting the line into words is the shell's work, not the plugin's.
\<close>

theorem runAwsCommand_final_invocation:
  "spawned (snd (runAwsCommand e tokens w)) = spawned w @ [(aws_command e, tokens)]
   \<and> aws_command e =
       join_sp (''aws'' # spec_pair ''--region'' (provider_region e)
                        @ spec_pair ''--profile'' (provider_profile e))
   \<and> shell_command_line (aws_command e) tokens =
       join_sp (''aws'' # spec_invocation (provider_region e) (provider_profile e) tokens)"
  using run_spawned [of e tokens w] shell_line_spec [of e tokens] aws_command_spec [of e]
  by simp

text \<open>
  C2, amended, at the specification's example: region \<^verbatim>\<open>us-east-1\<close>, profile \<^verbatim>\<open>p\<close>, tokens
  \<^verbatim>\<open>s3 sync a b\<close>.
\<close>

theorem runAwsCommand_final_invocation_witness:
  "spec_invocation (Some ''us-east-1'') (Some ''p'') [''s3'', ''sync'', ''a'', ''b'']
     = [''--region'', ''us-east-1'', ''--profile'', ''p'', ''s3'', ''sync'', ''a'', ''b'']
   \<and> spawned (snd (runAwsCommand (sample_env (described []) (listed []) SpawnError)
                      [''s3'', ''sync'', ''a'', ''b''] world0))
     = [(''aws --region us-east-1 --profile p'', [''s3'', ''sync'', ''a'', ''b''])]
   \<and> shell_command_line (aws_command (sample_env (described []) (listed []) SpawnError))
         [''s3'', ''sync'', ''a'', ''b'']
     = ''aws --region us-east-1 --profile p s3 sync a b''"
  using runAwsCommand_final_invocation
          [of "sample_env (described []) (listed []) SpawnError"
              "[''s3'', ''sync'', ''a'', ''b'']" world0]
  by (simp add: sample_env_def world0_def spec_invocation_def truthy_def aws_command_def)

lemma sync_then_completed:
  assumes "spawnSync e (length (spawned w)) (aws_command e)
             [''s3'', ''sync'', s3LocalPath e, ''s3://'' @ b @ ''/''] = Completed st out err"
  shows "syncDirectory_then e b w =
           (Inr (),
            w\<lparr>spawned := spawned w
                   @ [(aws_command e, [''s3'', ''sync'', s3LocalPath e, ''s3://'' @ b @ ''/''])],
              logged := logged w
                   @ [LogArray [''s3'', ''sync'', s3LocalPath e, ''s3://'' @ b @ ''/'']]
                   @ (if out = [] then [] else [LogString out])
                   @ (if err = [] then [LogString ''Successfully synced to the S3 bucket'']
                      else [LogString err])\<rparr>)"
proof -
  let ?args = "[''s3'', ''sync'', s3LocalPath e, ''s3://'' @ b @ ''/'']"
  have "spawnSync e (length (spawned (cli_log (LogArray ?args) w))) (aws_command e) ?args
          = Completed st out err"
    using assms by simp
  from run_completed [OF this] show ?thesis
    by (simp add: syncDirectory_then_def truthy_def cli_log_def Let_def)
qed

lemma empty_then_completed:
  assumes "spawnSync e (length (spawned w)) (aws_command e)
             [''s3'', ''rm'', ''s3://'' @ b @ ''/'', ''--recursive''] = Completed st out err"
  shows "emptyBucket_then e b w =
           (Inr (),
            w\<lparr>spawned := spawned w
                   @ [(aws_command e, [''s3'', ''rm'', ''s3://'' @ b @ ''/'', ''--recursive''])],
              logged := logged w
                   @ (if out = [] then [] else [LogString out])
                   @ (if err = [] then [LogString ''Successfully synced to the S3 bucket'']
                      else [LogString err])\<rparr>)"
  using run_completed [OF assms]
  by (simp add: emptyBucket_then_def truthy_def cli_log_def Let_def)

lemma invalidate_completed:
  assumes D: "domainInfo e w = (Promise (Inr domain), w1)"
      and L: "listDistributions e (requests w1) (stage e) (region e) = Inr result"
      and F: "find (\<lambda>entry. DomainName entry = domain) (Items (DistributionList result)) = Some d"
      and S: "spawnSync e (length (spawned w1)) (aws_command e) (invalidation_args (Id' d))
                = Completed st out err"
  shows "fst (invalidateCache e w) =
           Promise (if err = [] then Inr ()
                    else Inl (Error ''Failed invalidating CloudFront cache''))"
proof -
  let ?w3 = "cli_log (LogString (''Invalidating CloudFront distribution with id: '' @ Id' d))
               (w1\<lparr>requests := Suc (requests w1)\<rparr>)"
  have "spawnSync e (length (spawned ?w3)) (aws_command e) (invalidation_args (Id' d))
          = Completed st out err"
    using S by simp
  from run_completed [OF this] show ?thesis
    by (simp add: invalidate_matched [OF D L F] truthy_def)
qed

text \<open>
  C3. When the spawned command ran and ended with exit status \<open>st\<close>, output \<open>out\<close> and
  standard error \<open>err\<close>, \<^verbatim>\<open>runAwsCommand\<close> returns the two texts, and each caller
  takes the success branch exactly when \<open>err\<close> is empty: Sync and Empty log their
  success line then and only the error text otherwise, and InvalidateCache (once a
  distribution matched) is fulfilled then and rejected with
  \<^verbatim>\<open>Failed invalidating CloudFront cache\<close> otherwise. No right-hand side mentions
  \<open>st\<close>: the exit status is not consulted.
\<close>

theorem verdict_iff_stderr_empty:
  assumes S: "\<And>args. spawnSync e (length (spawned w)) (aws_command e) args
                        = Completed st out err"
  shows "fst (runAwsCommand e args w) = Inr \<lparr>stdout = out, sterr = err\<rparr>
       \<and> logged (snd (syncDirectory_then e b w)) =
           logged w @ [LogArray [''s3'', ''sync'', s3LocalPath e, ''s3://'' @ b @ ''/'']]
             @ (if out = [] then [] else [LogString out])
             @ (if err = [] then [LogString ''Successfully synced to the S3 bucket'']
                else [LogString err])
       \<and> logged (snd (emptyBucket_then e b w)) =
           logged w @ (if out = [] then [] else [LogString out])
             @ (if err = [] then [LogString ''Successfully synced to the S3 bucket'']
                else [LogString err])
       \<and> (domainInfo e w = (Promise (Inr domain), w1)
            \<and> listDistributions e (requests w1) (stage e) (region e) = Inr result
            \<and> find (\<lambda>entry. DomainName entry = domain) (Items (DistributionList result))
                = Some d
          \<longrightarrow> fst (invalidateCache e w) =
                Promise (if err = [] then Inr ()
                         else Inl (Error ''Failed invalidating CloudFront cache'')))"
proof (intro conjI impI)
  show "fst (runAwsCommand e args w) = Inr \<lparr>stdout = out, sterr = err\<rparr>"
    by (simp add: run_completed [OF S])
  show "logged (snd (syncDirectory_then e b w)) =
           logged w @ [LogArray [''s3'', ''sync'', s3LocalPath e, ''s3://'' @ b @ ''/'']]
             @ (if out = [] then [] else [LogString out])
             @ (if err = [] then [LogString ''Successfully synced to the S3 bucket'']
                else [LogString err])"
    by (simp add: sync_then_completed [OF S])
  show "logged (snd (emptyBucket_then e b w)) =
           logged w @ (if out = [] then [] else [LogString out])
             @ (if err = [] then [LogString ''Successfully synced to the S3 bucket'']
                else [LogString err])"
    by (simp add: empty_then_completed [OF S])
next
  assume H: "domainInfo e w = (Promise (Inr domain), w1)
            \<and> listDistributions e (requests w1) (stage e) (region e) = Inr result
            \<and> find (\<lambda>entry. DomainName entry = domain) (Items (DistributionList result))
                = Some d"
  then have "spawned w1 = spawned w"
    using domainInfo_spawned [of e w] by simp
  then have "spawnSync e (length (spawned w1)) (aws_command e) (invalidation_args (Id' d))
               = Completed st out err"
    using S by simp
  with H show "fst (invalidateCache e w) =
                Promise (if err = [] then Inr ()
                         else Inl (Error ''Failed invalidating CloudFront cache''))"
    by (simp add: invalidate_completed)
qed

text \<open>
  C3 at exit status 1 with empty standard error (success) and at exit status 0 with
  standard error \<^verbatim>\<open>warning\<close> (failure).
\<close>

theorem verdict_iff_stderr_empty_witness:
  "fst (runAwsCommand (sample_env sample_stack sample_listing (Completed (Some 1) ''ok'' []))
          [''s3'', ''ls''] world0)
     = Inr \<lparr>stdout = ''ok'', sterr = []\<rparr>
   \<and> logged (snd (syncDirectory_then
          (sample_env sample_stack sample_listing (Completed (Some 1) ''ok'' [])) ''bkt'' world0))
     = [LogArray [''s3'', ''sync'', ''dist'', ''s3://bkt/''], LogString ''ok'',
        LogString ''Successfully synced to the S3 bucket'']
   \<and> fst (invalidateCache
          (sample_env sample_stack sample_listing (Completed (Some 1) ''ok'' [])) world0)
     = Promise (Inr ())
   \<and> logged (snd (emptyBucket_then
          (sample_env sample_stack sample_listing (Completed (Some 0) [] ''warning''))
          ''bkt'' world0))
     = [LogString ''warning'']
   \<and> fst (invalidateCache
          (sample_env sample_stack sample_listing (Completed (Some 0) [] ''warning'')) world0)
     = Promise (Inl (Error ''Failed invalidating CloudFront cache''))"
  using verdict_iff_stderr_empty
          [where e = "sample_env sample_stack sample_listing (Completed (Some 1) ''ok'' [])"
             and w = world0 and st = "Some 1" and out = "''ok''" and err = "[]"
             and args = "[''s3'', ''ls'']" and b = "''bkt''"
             and domain = "''d1.example.com''"
             and ?w1.0 = "\<lparr>logged = [LogString ''Web App Domain: d1.example.com''],
                           requests = 1, spawned = [], unhandled = []\<rparr>"
             and result = "\<lparr>DistributionList = \<lparr>Items =
                             [\<lparr>Id' = ''E123'', DomainName = ''d1.example.com''\<rparr>,
                              \<lparr>Id' = ''E999'', DomainName = ''other.com''\<rparr>]\<rparr>\<rparr>"
             and d = "\<lparr>Id' = ''E123'', DomainName = ''d1.example.com''\<rparr>"]
        verdict_iff_stderr_empty
          [where e = "sample_env sample_stack sample_listing (Completed (Some 0) [] ''warning'')"
             and w = world0 and st = "Some 0" and out = "[]" and err = "''warning''"
             and args = "[''s3'', ''ls'']" and b = "''bkt''"
             and domain = "''d1.example.com''"
             and ?w1.0 = "\<lparr>logged = [LogString ''Web App Domain: d1.example.com''],
                           requests = 1, spawned = [], unhandled = []\<rparr>"
             and result = "\<lparr>DistributionList = \<lparr>Items =
                             [\<lparr>Id' = ''E123'', DomainName = ''d1.example.com''\<rparr>,
                              \<lparr>Id' = ''E999'', DomainName = ''other.com''\<rparr>]\<rparr>\<rparr>"
             and d = "\<lparr>Id' = ''E123'', DomainName = ''d1.example.com''\<rparr>"]
  by (simp add: sample_env_def sample_stack_def sample_listing_def described_def listed_def
                world0_def domainInfo_def domainInfo_chain_def getDescribeStacksOutput_def getDescribeStacksOutput_then_def
                or_else_def truthy_def cli_log_def)

text \<open>
  C4. When DomainInfo resolved \<open>domain\<close> and the listing is \<open>pre @ d # post\<close> with \<open>d\<close>
  the first distribution whose \<^verbatim>\<open>DomainName\<close> equals \<open>domain\<close>, InvalidateCache spawns
  exactly one command, and its \<^verbatim>\<open>--distribution-id\<close> token is the \<^verbatim>\<open>Id\<close> of \<open>d\<close>.
\<close>

theorem invalidateCache_targets_first_match:
  assumes D: "domainInfo e w = (Promise (Inr domain), w1)"
      and L: "listDistributions e (requests w1) (stage e) (region e) = Inr result"
      and I: "Items (DistributionList result) = pre @ d # post"
      and P: "\<forall>x\<in>set pre. DomainName x \<noteq> domain"
      and M: "DomainName d = domain"
  shows "spawned (snd (invalidateCache e w)) =
           spawned w @ [(aws_command e, invalidation_args (Id' d))]"
proof -
  have F: "find (\<lambda>entry. DomainName entry = domain) (Items (DistributionList result)) = Some d"
    using I P M by (simp add: find_first)
  have W: "spawned w1 = spawned w"
    using D domainInfo_spawned [of e w] by simp
  let ?w3 = "cli_log (LogString (''Invalidating CloudFront distribution with id: '' @ Id' d))
               (w1\<lparr>requests := Suc (requests w1)\<rparr>)"
  obtain r w4 where R: "runAwsCommand e (invalidation_args (Id' d)) ?w3 = (r, w4)"
    by (cases "runAwsCommand e (invalidation_args (Id' d)) ?w3")
  have "spawned w4 = spawned w @ [(aws_command e, invalidation_args (Id' d))]"
    using run_spawned [of e "invalidation_args (Id' d)" ?w3] R W by simp
  then show ?thesis
    unfolding invalidate_matched [OF D L F] R by (cases r) simp_all
qed

text \<open>
  C4 at the specification's example: domain \<^verbatim>\<open>d1.example.com\<close>, distributions
  \<^verbatim>\<open>E123\<close> (that domain) and \<^verbatim>\<open>E999\<close> (\<^verbatim>\<open>other.com\<close>); the command targets \<^verbatim>\<open>E123\<close>.
\<close>

theorem invalidateCache_targets_first_match_witness:
  "domainInfo (sample_env sample_stack sample_listing (Completed (Some 0) [] [])) world0
     = (Promise (Inr ''d1.example.com''),
        \<lparr>logged = [LogString ''Web App Domain: d1.example.com''],
         requests = 1, spawned = [], unhandled = []\<rparr>)
   \<and> sample_listing
     = Inr \<lparr>DistributionList = \<lparr>Items =
              [] @ \<lparr>Id' = ''E123'', DomainName = ''d1.example.com''\<rparr>
                 # [\<lparr>Id' = ''E999'', DomainName = ''other.com''\<rparr>]\<rparr>\<rparr>
   \<and> spawned (snd (invalidateCache
          (sample_env sample_stack sample_listing (Completed (Some 0) [] [])) world0))
     = [(''aws --region us-east-1 --profile p'',
         [''cloudfront'', ''create-invalidation'', ''--distribution-id'', ''E123'',
          ''--paths'', [CHR 0x22, CHR ''/'', CHR ''*'', CHR 0x22]])]"
  using invalidateCache_targets_first_match
          [where e = "sample_env sample_stack sample_listing (Completed (Some 0) [] [])"
             and w = world0 and domain = "''d1.example.com''"
             and ?w1.0 = "\<lparr>logged = [LogString ''Web App Domain: d1.example.com''],
                           requests = 1, spawned = [], unhandled = []\<rparr>"
             and result = "\<lparr>DistributionList = \<lparr>Items =
                             [\<lparr>Id' = ''E123'', DomainName = ''d1.example.com''\<rparr>,
                              \<lparr>Id' = ''E999'', DomainName = ''other.com''\<rparr>]\<rparr>\<rparr>"
             and pre = "[]"
             and d = "\<lparr>Id' = ''E123'', DomainName = ''d1.example.com''\<rparr>"
             and post = "[\<lparr>Id' = ''E999'', DomainName = ''other.com''\<rparr>]"]
  by (simp add: sample_env_def sample_stack_def sample_listing_def described_def listed_def
                world0_def domainInfo_def domainInfo_chain_def getDescribeStacksOutput_def getDescribeStacksOutput_then_def
                or_else_def truthy_def cli_log_def aws_command_def)

text \<open>
  C5. When DomainInfo resolved \<open>domain\<close> and no distribution of the listing has that
  \<^verbatim>\<open>DomainName\<close>, InvalidateCache is rejected with an error whose message is
  \<^verbatim>\<open>Could not find distribution with domain\<close> followed by the domain, logs that
  message, and spawns no command.
\<close>

theorem invalidateCache_no_match:
  assumes D: "domainInfo e w = (Promise (Inr domain), w1)"
      and L: "listDistributions e (requests w1) (stage e) (region e) = Inr result"
      and N: "\<forall>x\<in>set (Items (DistributionList result)). DomainName x \<noteq> domain"
  shows "fst (invalidateCache e w) =
           Promise (Inl (Error (''Could not find distribution with domain '' @ domain)))
       \<and> spawned (snd (invalidateCache e w)) = spawned w
       \<and> logged (snd (invalidateCache e w)) =
           logged w1 @ [LogString (''Could not find distribution with domain '' @ domain)]"
proof -
  have F: "find (\<lambda>entry. DomainName entry = domain) (Items (DistributionList result)) = None"
    using N by (simp add: find_None_iff)
  have W: "spawned w1 = spawned w"
    using D domainInfo_spawned [of e w] by simp
  show ?thesis
    using W by (simp add: invalidate_unmatched [OF D L F])
qed

text \<open>C5 at a listing that holds only \<^verbatim>\<open>other.com\<close>.\<close>

theorem invalidateCache_no_match_witness:
  "domainInfo (sample_env sample_stack (listed [(''E999'', ''other.com'')]) SpawnError) world0
     = (Promise (Inr ''d1.example.com''),
        \<lparr>logged = [LogString ''Web App Domain: d1.example.com''],
         requests = 1, spawned = [], unhandled = []\<rparr>)
   \<and> fst (invalidateCache
          (sample_env sample_stack (listed [(''E999'', ''other.com'')]) SpawnError) world0)
     = Promise (Inl (Error ''Could not find distribution with domain d1.example.com''))
   \<and> spawned (snd (invalidateCache
          (sample_env sample_stack (listed [(''E999'', ''other.com'')]) SpawnError) world0))
     = []
   \<and> logged (snd (invalidateCache
          (sample_env sample_stack (listed [(''E999'', ''other.com'')]) SpawnError) world0))
     = [LogString ''Web App Domain: d1.example.com'',
        LogString ''Could not find distribution with domain d1.example.com'']"
  using invalidateCache_no_match
          [where e = "sample_env sample_stack (listed [(''E999'', ''other.com'')]) SpawnError"
             and w = world0 and domain = "''d1.example.com''"
             and ?w1.0 = "\<lparr>logged = [LogString ''Web App Domain: d1.example.com''],
                           requests = 1, spawned = [], unhandled = []\<rparr>"
             and result = "\<lparr>DistributionList = \<lparr>Items =
                             [\<lparr>Id' = ''E999'', DomainName = ''other.com''\<rparr>]\<rparr>\<rparr>"]
  by (simp add: sample_env_def sample_stack_def listed_def described_def
                world0_def domainInfo_def domainInfo_chain_def getDescribeStacksOutput_def getDescribeStacksOutput_then_def
                or_else_def truthy_def cli_log_def)

lemma resolve_fst:
  "fst (getDescribeStacksOutput e k w) =
     (case describeStacks e (requests w) (getStackName e (stage e)) (stage e) (region e) of
        Inl err \<Rightarrow> Inl err
      | Inr result \<Rightarrow> getDescribeStacksOutput_then k result)"
  by (simp add: getDescribeStacksOutput_def split: sum.splits)

lemma resolve_pair:
  "getDescribeStacksOutput e k w =
     (fst (getDescribeStacksOutput e k w), w\<lparr>requests := Suc (requests w)\<rparr>)"
  using resolve_world [of e k w] by (cases "getDescribeStacksOutput e k w") simp

lemma sync_rejected:
  assumes "describeStacks e (requests w) (getStackName e (stage e)) (stage e) (region e) = Inl err"
  shows "syncDirectory e w =
           (Undefined, w\<lparr>requests := Suc (requests w), unhandled := unhandled w @ [err]\<rparr>)"
  by (simp add: syncDirectory_def syncDirectory_chain_def dropped_def resolve_rejected [OF assms])

lemma empty_rejected:
  assumes "describeStacks e (requests w) (getStackName e (stage e)) (stage e) (region e) = Inl err"
  shows "emptyBucket e w =
           (Undefined, w\<lparr>requests := Suc (requests w), unhandled := unhandled w @ [err]\<rparr>)"
  by (simp add: emptyBucket_def emptyBucket_chain_def dropped_def resolve_rejected [OF assms])



lemma domainInfo_fst:
  "fst (domainInfo e w) =
     Promise (fst (getDescribeStacksOutput e ''WebAppCloudFrontDistributionOutput'' w))"
  by (cases "getDescribeStacksOutput e ''WebAppCloudFrontDistributionOutput'' w")
     (simp add: domainInfo_def domainInfo_chain_def split: sum.splits)




lemma bucketInfo_world:
  "snd (bucketInfo e w) =
     (case fst (getDescribeStacksOutput e ''WebAppS3BucketOutput'' w) of
        Inl err \<Rightarrow> w\<lparr>requests := Suc (requests w), unhandled := unhandled w @ [err]\<rparr>
      | Inr v \<Rightarrow>
          cli_log (LogString (''Web App Bucket: '' @ or_else v ''Not Found''))
            (w\<lparr>requests := Suc (requests w)\<rparr>))"
proof -
  define r where "r = fst (getDescribeStacksOutput e ''WebAppS3BucketOutput'' w)"
  have R: "getDescribeStacksOutput e ''WebAppS3BucketOutput'' w
             = (r, w\<lparr>requests := Suc (requests w)\<rparr>)"
    unfolding r_def by (rule resolve_pair)
  show ?thesis
    unfolding bucketInfo_def bucketInfo_chain_def R
    by (cases r) (simp_all add: dropped_def)
qed

lemma domainInfo_world:
  "snd (domainInfo e w) =
     (case fst (getDescribeStacksOutput e ''WebAppCloudFrontDistributionOutput'' w) of
        Inl err \<Rightarrow> w\<lparr>requests := Suc (requests w)\<rparr>
      | Inr v \<Rightarrow>
          cli_log (LogString (''Web App Domain: '' @ or_else v ''Not Found''))
            (w\<lparr>requests := Suc (requests w)\<rparr>))"
proof -
  define r where "r = fst (getDescribeStacksOutput e ''WebAppCloudFrontDistributionOutput'' w)"
  have R: "getDescribeStacksOutput e ''WebAppCloudFrontDistributionOutput'' w
             = (r, w\<lparr>requests := Suc (requests w)\<rparr>)"
    unfolding r_def by (rule resolve_pair)
  show ?thesis
    unfolding domainInfo_def domainInfo_chain_def R
    by (cases r) simp_all
qed

lemma resolve_again:
  assumes "describeStacks e (Suc (requests w)) (getStackName e (stage e)) (stage e) (region e)
             = describeStacks e (requests w) (getStackName e (stage e)) (stage e) (region e)"
      and "requests w' = Suc (requests w)"
  shows "fst (getDescribeStacksOutput e k w') = fst (getDescribeStacksOutput e k w)"
  using assms by (simp add: resolve_fst)

text \<open>
  C8. When the description request is answered the same the second time as the first,
  two BucketInfo invocations in sequence append the same lines to the log, and so do
  two DomainInfo invocations, which also settle to the same value.
\<close>

theorem info_twice_same_output:
  assumes "describeStacks e (Suc (requests w)) (getStackName e (stage e)) (stage e) (region e)
             = describeStacks e (requests w) (getStackName e (stage e)) (stage e) (region e)"
  shows "(let w1 = snd (bucketInfo e w); w2 = snd (bucketInfo e w1)
          in logged w1 = logged w @ lines_since w w1
           \<and> logged w2 = logged w1 @ lines_since w1 w2
           \<and> lines_since w1 w2 = lines_since w w1)
       \<and> (let w1 = snd (domainInfo e w); w2 = snd (domainInfo e w1)
          in logged w1 = logged w @ lines_since w w1
           \<and> logged w2 = logged w1 @ lines_since w1 w2
           \<and> lines_since w1 w2 = lines_since w w1
           \<and> fst (domainInfo e w1) = fst (domainInfo e w))"
proof -
  have B: "requests (snd (bucketInfo e w)) = Suc (requests w)"
    by (simp add: bucketInfo_world split: sum.splits)
  have D: "requests (snd (domainInfo e w)) = Suc (requests w)"
    by (simp add: domainInfo_world split: sum.splits)
  have RB: "fst (getDescribeStacksOutput e ''WebAppS3BucketOutput'' (snd (bucketInfo e w)))
              = fst (getDescribeStacksOutput e ''WebAppS3BucketOutput'' w)"
    by (rule resolve_again [OF assms B])
  have RD: "fst (getDescribeStacksOutput e ''WebAppCloudFrontDistributionOutput''
                   (snd (domainInfo e w)))
              = fst (getDescribeStacksOutput e ''WebAppCloudFrontDistributionOutput'' w)"
    by (rule resolve_again [OF assms D])
  have 1: "logged (snd (bucketInfo e w')) =
             logged w' @
               (case fst (getDescribeStacksOutput e ''WebAppS3BucketOutput'' w') of
                  Inl err \<Rightarrow> []
                | Inr v \<Rightarrow> [LogString (''Web App Bucket: '' @ or_else v ''Not Found'')])" for w'
    by (simp add: bucketInfo_world split: sum.splits)
  have 2: "logged (snd (domainInfo e w')) =
             logged w' @
               (case fst (getDescribeStacksOutput e ''WebAppCloudFrontDistributionOutput'' w') of
                  Inl err \<Rightarrow> []
                | Inr v \<Rightarrow> [LogString (''Web App Domain: '' @ or_else v ''Not Found'')])" for w'
    by (simp add: domainInfo_world split: sum.splits)
  have 3: "fst (domainInfo e (snd (domainInfo e w))) = fst (domainInfo e w)"
    by (simp add: domainInfo_fst RD)
  show ?thesis
    unfolding Let_def lines_since_def
    by (simp add: 1 [of "snd (bucketInfo e w)"] 1 [of w] 2 [of "snd (domainInfo e w)"] 2 [of w]
                  RB RD 3)
qed

text \<open>C8 at the sample deployment: each invocation logs the same single line.\<close>

theorem info_twice_same_output_witness:
  "describeStacks (sample_env sample_stack sample_listing SpawnError) (Suc (requests world0))
       ''app-dev'' (Some ''dev'') (Some ''us-east-1'')
     = describeStacks (sample_env sample_stack sample_listing SpawnError) (requests world0)
         ''app-dev'' (Some ''dev'') (Some ''us-east-1'')
   \<and> lines_since world0 (snd (bucketInfo (sample_env sample_stack sample_listing SpawnError) world0))
     = [LogString ''Web App Bucket: bkt'']
   \<and> lines_since (snd (bucketInfo (sample_env sample_stack sample_listing SpawnError) world0))
        (snd (bucketInfo (sample_env sample_stack sample_listing SpawnError)
                (snd (bucketInfo (sample_env sample_stack sample_listing SpawnError) world0))))
     = [LogString ''Web App Bucket: bkt'']
   \<and> lines_since (snd (domainInfo (sample_env sample_stack sample_listing SpawnError) world0))
        (snd (domainInfo (sample_env sample_stack sample_listing SpawnError)
                (snd (domainInfo (sample_env sample_stack sample_listing SpawnError) world0))))
     = [LogString ''Web App Domain: d1.example.com'']"
  using info_twice_same_output [of "sample_env sample_stack sample_listing SpawnError" world0]
  by (simp add: Let_def sample_env_def sample_stack_def described_def world0_def
                interpolate_def lines_since_def bucketInfo_def bucketInfo_chain_def
                domainInfo_def domainInfo_chain_def dropped_def
                getDescribeStacksOutput_def getDescribeStacksOutput_then_def
                or_else_def truthy_def cli_log_def)

text \<open>
  C9. When the bucket name resolved and the spawned command ended with empty standard
  error, the last line Empty logs is \<^verbatim>\<open>Successfully synced to the S3 bucket\<close>, the
  same line Sync logs, although the command it ran is \<^verbatim>\<open>s3 rm ... --recursive\<close>.
\<close>

theorem emptyBucket_success_message:
  assumes R: "fst (getDescribeStacksOutput e ''WebAppS3BucketOutput'' w) = Inr bkt"
      and S: "\<And>args. spawnSync e (length (spawned w)) (aws_command e) args
                        = Completed st out []"
  shows "logged (snd (emptyBucket e w)) =
           logged w @ (if out = [] then [] else [LogString out])
             @ [LogString ''Successfully synced to the S3 bucket'']
       \<and> logged (snd (syncDirectory e w)) =
           logged w @ [LogArray [''s3'', ''sync'', s3LocalPath e, ''s3://'' @ bkt @ ''/'']]
             @ (if out = [] then [] else [LogString out])
             @ [LogString ''Successfully synced to the S3 bucket'']
       \<and> spawned (snd (emptyBucket e w)) =
           spawned w @ [(aws_command e, [''s3'', ''rm'', ''s3://'' @ bkt @ ''/'', ''--recursive''])]"
proof -
  let ?w1 = "w\<lparr>requests := Suc (requests w)\<rparr>"
  have G: "getDescribeStacksOutput e ''WebAppS3BucketOutput'' w = (Inr bkt, ?w1)"
    using resolve_pair [of e "''WebAppS3BucketOutput''" w] R by simp
  have S1: "\<And>args. spawnSync e (length (spawned ?w1)) (aws_command e) args
                      = Completed st out []"
    using S by simp
  have E: "emptyBucket e w = dropped (emptyBucket_then e bkt ?w1)"
    by (simp add: emptyBucket_def emptyBucket_chain_def G)
  have Y: "syncDirectory e w = dropped (syncDirectory_then e bkt ?w1)"
    by (simp add: syncDirectory_def syncDirectory_chain_def G)
  show ?thesis
    unfolding E Y empty_then_completed [OF S1] sync_then_completed [OF S1]
    by (simp add: dropped_def)
qed

text \<open>C9 at the sample deployment with a command that deleted one object.\<close>

theorem emptyBucket_success_message_witness:
  "fst (getDescribeStacksOutput
          (sample_env sample_stack sample_listing (Completed (Some 0) ''delete: s3://bkt/a'' []))
          ''WebAppS3BucketOutput'' world0)
     = Inr ''bkt''
   \<and> logged (snd (emptyBucket
          (sample_env sample_stack sample_listing (Completed (Some 0) ''delete: s3://bkt/a'' []))
          world0))
     = [LogString ''delete: s3://bkt/a'', LogString ''Successfully synced to the S3 bucket'']
   \<and> spawned (snd (emptyBucket
          (sample_env sample_stack sample_listing (Completed (Some 0) ''delete: s3://bkt/a'' []))
          world0))
     = [(''aws --region us-east-1 --profile p'', [''s3'', ''rm'', ''s3://bkt/'', ''--recursive''])]"
  using emptyBucket_success_message
          [where e = "sample_env sample_stack sample_listing
                        (Completed (Some 0) ''delete: s3://bkt/a'' [])"
             and w = world0 and bkt = "''bkt''" and st = "Some 0"
             and out = "''delete: s3://bkt/a''"]
  by (simp add: sample_env_def sample_stack_def described_def world0_def interpolate_def
                getDescribeStacksOutput_def getDescribeStacksOutput_then_def aws_command_def
                truthy_def)

text \<open>
  C10. Sync and Empty return \<^verbatim>\<open>undefined\<close> for every input; a rejection of their
  promise chain is handled by nobody; and when the description request is rejected
  the only changes are the request count and the unhandled rejection: nothing is
  logged, nothing is spawned, and the caller receives no error.
\<close>

theorem sync_empty_fire_and_forget:
  "fst (syncDirectory e w) = Undefined
   \<and> fst (emptyBucket e w) = Undefined
   \<and> (fst (syncDirectory_chain e w) = Inl err
        \<longrightarrow> unhandled (snd (syncDirectory e w))
              = unhandled (snd (syncDirectory_chain e w)) @ [err])
   \<and> (fst (emptyBucket_chain e w) = Inl err
        \<longrightarrow> unhandled (snd (emptyBucket e w))
              = unhandled (snd (emptyBucket_chain e w)) @ [err])
   \<and> (describeStacks e (requests w) (getStackName e (stage e)) (stage e) (region e) = Inl err
        \<longrightarrow> syncDirectory e w =
              (Undefined,
               w\<lparr>requests := Suc (requests w), unhandled := unhandled w @ [err]\<rparr>)
          \<and> emptyBucket e w =
              (Undefined,
               w\<lparr>requests := Suc (requests w), unhandled := unhandled w @ [err]\<rparr>))"
proof (intro conjI impI)
  show "fst (syncDirectory e w) = Undefined"
    by (simp add: syncDirectory_def dropped_fst)
  show "fst (emptyBucket e w) = Undefined"
    by (simp add: emptyBucket_def dropped_fst)
next
  assume "fst (syncDirectory_chain e w) = Inl err"
  then show "unhandled (snd (syncDirectory e w))
               = unhandled (snd (syncDirectory_chain e w)) @ [err]"
    by (cases "syncDirectory_chain e w") (simp add: syncDirectory_def dropped_def)
next
  assume "fst (emptyBucket_chain e w) = Inl err"
  then show "unhandled (snd (emptyBucket e w))
               = unhandled (snd (emptyBucket_chain e w)) @ [err]"
    by (cases "emptyBucket_chain e w") (simp add: emptyBucket_def dropped_def)
next
  assume R: "describeStacks e (requests w) (getStackName e (stage e)) (stage e) (region e)
               = Inl err"
  show "syncDirectory e w =
          (Undefined, w\<lparr>requests := Suc (requests w), unhandled := unhandled w @ [err]\<rparr>)"
    by (rule sync_rejected [OF R])
  show "emptyBucket e w =
          (Undefined, w\<lparr>requests := Suc (requests w), unhandled := unhandled w @ [err]\<rparr>)"
    by (rule empty_rejected [OF R])
qed

text \<open>C10 at a description request rejected with \<^verbatim>\<open>AccessDenied\<close>.\<close>

theorem sync_empty_fire_and_forget_witness:
  "describeStacks (sample_env (Inl (RequestError ''AccessDenied'')) sample_listing SpawnError)
       (requests world0) ''app-dev'' (Some ''dev'') (Some ''us-east-1'')
     = Inl (RequestError ''AccessDenied'')
   \<and> fst (syncDirectory_chain
          (sample_env (Inl (RequestError ''AccessDenied'')) sample_listing SpawnError) world0)
     = Inl (RequestError ''AccessDenied'')
   \<and> syncDirectory (sample_env (Inl (RequestError ''AccessDenied'')) sample_listing SpawnError)
         world0
     = (Undefined, \<lparr>logged = [], requests = 1, spawned = [],
                    unhandled = [RequestError ''AccessDenied'']\<rparr>)
   \<and> emptyBucket (sample_env (Inl (RequestError ''AccessDenied'')) sample_listing SpawnError)
         world0
     = (Undefined, \<lparr>logged = [], requests = 1, spawned = [],
                    unhandled = [RequestError ''AccessDenied'']\<rparr>)"
  using sync_empty_fire_and_forget
          [where e = "sample_env (Inl (RequestError ''AccessDenied'')) sample_listing SpawnError"
             and w = world0 and err = "RequestError ''AccessDenied''"]
  by (simp add: sample_env_def world0_def interpolate_def syncDirectory_chain_def
                getDescribeStacksOutput_def)

end
